theory Spec2Isabelle
  imports Main "HOL-Library.Word"
begin

section \<open>Data model of the hotel management program (main.go)\<close>

text \<open>
  Go's \<open>int\<close> is a 64-bit two's complement integer on the platforms the program is built
  for: it is modelled as a 64-bit word, compared as a signed value (\<open><s\<close>, \<open>\<le>s\<close>),
  so that \<open>+\<close> and \<open>-\<close> wrap around as they do in Go.

  \<open>float64\<close> values (balances and prices) are kept abstract: the type is a type variable
  \<open>'f\<close> and the operations the program applies to it are the fields of the record
  \<open>float64\<close> below, passed to every function that computes with them. Every theorem
  holds for each interpretation of these operations, IEEE 754 arithmetic with its rounding
  and exact arithmetic alike.

  Both structs have a field \<open>ID\<close>: it is \<open>User_ID\<close> in one record and \<open>Room_ID\<close> in the
  other. The local variable \<open>id\<close> of the source is \<open>uid\<close> or \<open>rid\<close>, and \<open>total\<close> is
  \<open>tot\<close>, since \<open>id\<close> and \<open>total\<close> are constants of the logic.
\<close>

type_synonym go_int = "64 word"

record 'f float64 =
  ParseFloat :: "string \<Rightarrow> 'f option" \<comment> \<open>\<open>strconv.ParseFloat(s, 64)\<close>, \<open>None\<close> when it returns an error\<close>
  fmul :: "'f \<Rightarrow> 'f \<Rightarrow> 'f" \<comment> \<open>\<open>a * b\<close>\<close>
  fsub :: "'f \<Rightarrow> 'f \<Rightarrow> 'f" \<comment> \<open>\<open>a - b\<close>\<close>
  flt :: "'f \<Rightarrow> 'f \<Rightarrow> bool" \<comment> \<open>\<open>a < b\<close>\<close>
  of_int64 :: "go_int \<Rightarrow> 'f" \<comment> \<open>the conversion \<open>float64(n)\<close>\<close>
  fzero :: "'f" \<comment> \<open>the zero value of \<open>float64\<close>\<close>
  f1000 :: "'f" \<comment> \<open>the literal \<open>1000.0\<close>\<close>

record 'f User =
  User_ID :: go_int
  Username :: string
  Password :: string
  Role :: string
  CustomerType :: string
  Balance :: "'f"

record 'f Room =
  Room_ID :: go_int
  Type :: string
  Price :: "'f"
  Total :: go_int
  Available :: go_int

text \<open>The two global slices \<open>users\<close> and \<open>rooms\<close>.\<close>

record 'f state =
  users :: "'f User list"
  rooms :: "'f Room list"

text \<open>
  What an operation does besides changing the two slices is recorded as a trace of events:
  the outcome lines it prints, and its calls of \<open>saveUsers\<close> and \<open>saveRooms\<close> with the
  slice they write to the file. Prompts, the room listing and the lines that echo current
  values are not part of the trace, nor is what \<open>saveUsers\<close> and \<open>saveRooms\<close> print when
  the file cannot be written.
\<close>

datatype 'f message =
    LoginOK | LoginFailed
  | UsernameExists | RegisterOK | InvalidRole | UserAdded
  | InvalidID | UserNotFound | InvalidBalance | UserUpdated | UserDeleted
  | InvalidPrice | InvalidRoomCount | RoomAdded
  | RoomNotFound | InvalidCount | RoomUpdated | RoomDeleted
  | NoRooms | InvalidRoomID | InvalidQuantity | ExceedsAvailable | InsufficientBalance
  | BookingOK "'f" "'f"

datatype 'f event =
    Print "'f message"
  | SaveUsers "'f User list"
  | SaveRooms "'f Room list"

section \<open>Reading integers\<close>

text \<open>
  \<open>strconv.Atoi\<close>: an optional sign \<open>+\<close> or \<open>-\<close>, then one or more decimal digits and
  nothing else; a value outside the 64-bit range is an error. The program looks at the
  error only, so the result is \<open>None\<close> for every error.
\<close>

definition is_digit :: "char \<Rightarrow> bool" where
  "is_digit c = (48 \<le> (of_char c :: nat) \<and> (of_char c :: nat) \<le> 57)"

fun digits_value :: "int \<Rightarrow> string \<Rightarrow> int" where
  "digits_value n [] = n"
| "digits_value n (c # cs) = digits_value (n * 10 + (int (of_char c) - 48)) cs"

definition in_int64 :: "int \<Rightarrow> bool" where
  "in_int64 n = (- (2 ^ 63) \<le> n \<and> n < 2 ^ 63)"

definition parse_digits :: "bool \<Rightarrow> string \<Rightarrow> go_int option" where
  "parse_digits neg ds =
     (if ds = [] \<or> \<not> list_all is_digit ds then None
      else let n = (if neg then - digits_value 0 ds else digits_value 0 ds)
           in if in_int64 n then Some (word_of_int n) else None)"

fun Atoi :: "string \<Rightarrow> go_int option" where
  "Atoi [] = None"
| "Atoi (c # cs) =
     (if c = CHR ''-'' then parse_digits True cs
      else if c = CHR ''+'' then parse_digits False cs
      else parse_digits False (c # cs))"

section \<open>Identifiers of new records\<close>

fun maxUserID :: "go_int \<Rightarrow> 'f User list \<Rightarrow> go_int" where
  "maxUserID maxID [] = maxID"
| "maxUserID maxID (user # us) =
     maxUserID (if maxID <s User_ID user then User_ID user else maxID) us"

definition getNextUserID :: "'f User list \<Rightarrow> go_int" where
  "getNextUserID us = maxUserID 0 us + 1"

fun maxRoomID :: "go_int \<Rightarrow> 'f Room list \<Rightarrow> go_int" where
  "maxRoomID maxID [] = maxID"
| "maxRoomID maxID (room # rs) =
     maxRoomID (if maxID <s Room_ID room then Room_ID room else maxID) rs"

definition getNextRoomID :: "'f Room list \<Rightarrow> go_int" where
  "getNextRoomID rs = maxRoomID 0 rs + 1"

section \<open>Searching the slices\<close>

text \<open>
  The loops \<open>for i := range rooms { if rooms[i].ID == id { ...; break } }\<close>: the index of
  the first record with the identifier, \<open>None\<close> when the loop ends without one.
\<close>

fun findUser :: "'f User list \<Rightarrow> go_int \<Rightarrow> nat option" where
  "findUser [] uid = None"
| "findUser (u # us) uid =
     (if User_ID u = uid then Some 0 else map_option Suc (findUser us uid))"

fun findRoom :: "'f Room list \<Rightarrow> go_int \<Rightarrow> nat option" where
  "findRoom [] rid = None"
| "findRoom (r # rs) rid =
     (if Room_ID r = rid then Some 0 else map_option Suc (findRoom rs rid))"

fun usernameExists :: "'f User list \<Rightarrow> string \<Rightarrow> bool" where
  "usernameExists [] username = False"
| "usernameExists (user # us) username =
     (if Username user = username then True else usernameExists us username)"

section \<open>Booking\<close>

text \<open>
  \<open>bookRoom(customer)\<close>. The pointer \<open>customer\<close> is the one \<open>login\<close> returned,
  \<open>&users[i]\<close>; no operation of the customer menu appends to or deletes from \<open>users\<close>, so
  it is modelled as the index \<open>i\<close> into \<open>users\<close>, which is below the length of \<open>users\<close>
  whenever \<open>bookRoom\<close> is called. \<open>idStr\<close> and \<open>quantityStr\<close> are the two lines the
  function reads, as \<open>readLine\<close> returns them.
\<close>

definition bookRoom ::
  "'f float64 \<Rightarrow> nat \<Rightarrow> string \<Rightarrow> string \<Rightarrow> 'f state \<Rightarrow> 'f state \<times> 'f event list" where
  "bookRoom fl customer idStr quantityStr s =
     (if rooms s = [] then (s, [Print NoRooms])
      else case Atoi idStr of
        None \<Rightarrow> (s, [Print InvalidRoomID])
      | Some rid \<Rightarrow>
        (case findRoom (rooms s) rid of
           None \<Rightarrow> (s, [Print RoomNotFound])
         | Some i \<Rightarrow>
           (case Atoi quantityStr of
              None \<Rightarrow> (s, [Print InvalidQuantity])
            | Some quantity \<Rightarrow>
              if quantity \<le>s 0 then (s, [Print InvalidQuantity])
              else if Available (rooms s ! i) <s quantity then (s, [Print ExceedsAvailable])
              else
                let room = rooms s ! i;
                    cust = users s ! customer;
                    totalCost = fmul fl (Price room) (of_int64 fl quantity)
                in if flt fl (Balance cust) totalCost then (s, [Print InsufficientBalance])
                   else
                     let cust' = cust\<lparr>Balance := fsub fl (Balance cust) totalCost\<rparr>;
                         room' = room\<lparr>Available := Available room - quantity\<rparr>;
                         s' = s\<lparr>users := (users s)[customer := cust'],
                                rooms := (rooms s)[i := room']\<rparr>
                     in (s', [SaveUsers (users s'), SaveRooms (rooms s'),
                              Print (BookingOK totalCost (Balance cust'))]))))"

section \<open>Login and registration\<close>

text \<open>
  In every operation below the string arguments are the lines the function reads with
  \<open>readLine\<close>, in the order it reads them; a line is read only on the paths of the
  source that reach its \<open>readLine\<close> call, and is ignored on the others.
\<close>

fun findLogin :: "'f User list \<Rightarrow> string \<Rightarrow> string \<Rightarrow> nat option" where
  "findLogin [] username password = None"
| "findLogin (u # us) username password =
     (if Username u = username \<and> Password u = password then Some 0
      else map_option Suc (findLogin us username password))"

text \<open>\<open>login\<close> returns \<open>&users[i]\<close>, here the index \<open>i\<close>, or \<open>nil\<close>.\<close>

definition login :: "string \<Rightarrow> string \<Rightarrow> 'f state \<Rightarrow> nat option \<times> 'f event list" where
  "login username password s =
     (case findLogin (users s) username password of
        Some i \<Rightarrow> (Some i, [Print LoginOK])
      | None \<Rightarrow> (None, [Print LoginFailed]))"

definition registerCustomer ::
  "'f float64 \<Rightarrow> string \<Rightarrow> string \<Rightarrow> string \<Rightarrow> 'f state \<Rightarrow> 'f state \<times> 'f event list" where
  "registerCustomer fl username password choice s =
     (if usernameExists (users s) username then (s, [Print UsernameExists])
      else
        let customerType = (if choice = ''1'' then ''member'' else ''regular'');
            newUser = \<lparr>User_ID = getNextUserID (users s), Username = username,
                       Password = password, Role = ''customer'',
                       CustomerType = customerType, Balance = f1000 fl\<rparr>;
            s' = s\<lparr>users := users s @ [newUser]\<rparr>
        in (s', [SaveUsers (users s'), Print RegisterOK]))"

section \<open>User management\<close>

definition addUser ::
  "'f float64 \<Rightarrow> string \<Rightarrow> string \<Rightarrow> string \<Rightarrow> string \<Rightarrow> 'f state
     \<Rightarrow> 'f state \<times> 'f event list" where
  "addUser fl username password roleChoice ctChoice s =
     (if usernameExists (users s) username then (s, [Print UsernameExists])
      else if roleChoice \<noteq> ''1'' \<and> roleChoice \<noteq> ''2'' then (s, [Print InvalidRole])
      else
        let role = (if roleChoice = ''1'' then ''admin'' else ''customer'');
            customerType =
              (if roleChoice = ''1'' then []
               else if ctChoice = ''1'' then ''member'' else ''regular'');
            balance = (if roleChoice = ''1'' then fzero fl else f1000 fl);
            newUser = \<lparr>User_ID = getNextUserID (users s), Username = username,
                       Password = password, Role = role,
                       CustomerType = customerType, Balance = balance\<rparr>;
            s' = s\<lparr>users := users s @ [newUser]\<rparr>
        in (s', [SaveUsers (users s'), Print UserAdded]))"

text \<open>
  The part of \<open>updateUser\<close> that runs for a customer: the customer type, then the balance.
  It returns the record and what it printed.
\<close>

definition updateCustomerFields ::
  "'f float64 \<Rightarrow> string \<Rightarrow> string \<Rightarrow> 'f User \<Rightarrow> 'f User \<times> 'f event list" where
  "updateCustomerFields fl ctChoice balanceStr user =
     (let user1 =
            (if ctChoice = ''1'' then user\<lparr>CustomerType := ''member''\<rparr>
             else if ctChoice = ''2'' then user\<lparr>CustomerType := ''regular''\<rparr>
             else user)
      in if balanceStr \<noteq> [] then
           (case ParseFloat fl balanceStr of
              Some b \<Rightarrow> (user1\<lparr>Balance := b\<rparr>, [])
            | None \<Rightarrow> (user1, [Print InvalidBalance]))
         else (user1, []))"

definition updateUser ::
  "'f float64 \<Rightarrow> string \<Rightarrow> string \<Rightarrow> string \<Rightarrow> string \<Rightarrow> string \<Rightarrow> 'f state
     \<Rightarrow> 'f state \<times> 'f event list" where
  "updateUser fl idStr newUsername newPassword ctChoice balanceStr s =
     (case Atoi idStr of
        None \<Rightarrow> (s, [Print InvalidID])
      | Some uid \<Rightarrow>
        (case findUser (users s) uid of
           None \<Rightarrow> (s, [Print UserNotFound])
         | Some i \<Rightarrow>
           let user = users s ! i;
               user1 = (if newUsername \<noteq> [] then user\<lparr>Username := newUsername\<rparr> else user);
               user2 = (if newPassword \<noteq> [] then user1\<lparr>Password := newPassword\<rparr> else user1);
               (user3, out) =
                 (if Role user2 = ''customer''
                  then updateCustomerFields fl ctChoice balanceStr user2
                  else (user2, []));
               s' = s\<lparr>users := (users s)[i := user3]\<rparr>
           in (s', out @ [SaveUsers (users s'), Print UserUpdated])))"


section \<open>Room management\<close>

definition addRoom ::
  "'f float64 \<Rightarrow> string \<Rightarrow> string \<Rightarrow> string \<Rightarrow> 'f state \<Rightarrow> 'f state \<times> 'f event list" where
  "addRoom fl roomType priceStr totalStr s =
     (case ParseFloat fl priceStr of
        None \<Rightarrow> (s, [Print InvalidPrice])
      | Some price \<Rightarrow>
        (case Atoi totalStr of
           None \<Rightarrow> (s, [Print InvalidRoomCount])
         | Some tot \<Rightarrow>
           let newRoom = \<lparr>Room_ID = getNextRoomID (rooms s), Type = roomType,
                          Price = price, Total = tot, Available = tot\<rparr>;
               s' = s\<lparr>rooms := rooms s @ [newRoom]\<rparr>
           in (s', [SaveRooms (rooms s'), Print RoomAdded])))"

text \<open>The price step and the total step of \<open>updateRoom\<close>, each with what it printed.\<close>

definition updatePrice :: "'f float64 \<Rightarrow> string \<Rightarrow> 'f Room \<Rightarrow> 'f Room \<times> 'f event list" where
  "updatePrice fl priceStr room =
     (if priceStr \<noteq> [] then
        (case ParseFloat fl priceStr of
           Some price \<Rightarrow> (room\<lparr>Price := price\<rparr>, [])
         | None \<Rightarrow> (room, [Print InvalidPrice]))
      else (room, []))"

definition adjustTotal :: "go_int \<Rightarrow> 'f Room \<Rightarrow> 'f Room" where
  "adjustTotal tot room =
     (let diff = tot - Total room;
          room1 = room\<lparr>Total := tot\<rparr>;
          room2 = room1\<lparr>Available := Available room1 + diff\<rparr>
      in if Available room2 <s 0 then room2\<lparr>Available := 0\<rparr> else room2)"

definition updateTotal :: "string \<Rightarrow> 'f Room \<Rightarrow> 'f Room \<times> 'f event list" where
  "updateTotal totalStr room =
     (if totalStr \<noteq> [] then
        (case Atoi totalStr of
           Some tot \<Rightarrow> (adjustTotal tot room, [])
         | None \<Rightarrow> (room, [Print InvalidCount]))
      else (room, []))"

definition updateRoom ::
  "'f float64 \<Rightarrow> string \<Rightarrow> string \<Rightarrow> string \<Rightarrow> string \<Rightarrow> 'f state
     \<Rightarrow> 'f state \<times> 'f event list" where
  "updateRoom fl idStr newType priceStr totalStr s =
     (case Atoi idStr of
        None \<Rightarrow> (s, [Print InvalidID])
      | Some rid \<Rightarrow>
        (case findRoom (rooms s) rid of
           None \<Rightarrow> (s, [Print RoomNotFound])
         | Some i \<Rightarrow>
           let room = rooms s ! i;
               room1 = (if newType \<noteq> [] then room\<lparr>Type := newType\<rparr> else room);
               (room2, out1) = updatePrice fl priceStr room1;
               (room3, out2) = updateTotal totalStr room2;
               s' = s\<lparr>rooms := (rooms s)[i := room3]\<rparr>
           in (s', out1 @ out2 @ [SaveRooms (rooms s'), Print RoomUpdated])))"


section \<open>Sequences of operations\<close>







section \<open>Constraints on a room record\<close>

text \<open>
  The constraints of the data model on a room; \<open>nonneg\<close> is the test \<open>price \<ge> 0\<close> on
  \<open>float64\<close> values.
\<close>

definition room_ok :: "('f \<Rightarrow> bool) \<Rightarrow> 'f Room \<Rightarrow> bool" where
  "room_ok nonneg r =
     (nonneg (Price r) \<and> 0 \<le>s Total r \<and> 0 \<le>s Available r \<and> Available r \<le>s Total r)"

section \<open>An interpretation of the float64 operations on whole numbers\<close>

text \<open>
  On whole numbers of moderate size float64 arithmetic is exact. This interpretation
  computes with them as integers and reads a number the way \<open>Atoi\<close> does; it serves to run
  the operations on concrete inputs.
\<close>

definition whole :: "int float64" where
  "whole = \<lparr>ParseFloat = (\<lambda>str. map_option sint (Atoi str)),
            fmul = (\<lambda>a b. a * b), fsub = (\<lambda>a b. a - b), flt = (\<lambda>a b. a < b),
            of_int64 = sint, fzero = 0, f1000 = 1000\<rparr>"

text \<open>A store with the default administrator, one customer and one room type.\<close>

definition hotel :: "int state" where
  "hotel =
     \<lparr>users =
        [\<lparr>User_ID = 1, Username = ''admin'', Password = ''admin'', Role = ''admin'',
          CustomerType = [], Balance = 0\<rparr>,
         \<lparr>User_ID = 2, Username = ''bob'', Password = ''pw'', Role = ''customer'',
          CustomerType = ''member'', Balance = 1000\<rparr>],
      rooms =
        [\<lparr>Room_ID = 1, Type = ''single'', Price = 100, Total = 5, Available = 5\<rparr>]\<rparr>"

text \<open>\<open>math.MaxInt64\<close>, the largest value of Go's \<open>int\<close>.\<close>

definition MaxInt64 :: go_int where
  "MaxInt64 = 9223372036854775807"

section \<open>Auxiliary facts\<close>

lemmas Atoi_eval = parse_digits_def is_digit_def in_int64_def

lemma login_in_range:
  "fst (login username password s) = Some i \<Longrightarrow>
     i < length (users s) \<and> Username (users s ! i) = username \<and> Password (users s ! i) = password"
proof -
  have "findLogin us username password = Some i \<Longrightarrow>
      i < length us \<and> Username (us ! i) = username \<and> Password (us ! i) = password" for us
    by (induction us arbitrary: i) (auto split: if_splits)
  then show "fst (login username password s) = Some i \<Longrightarrow>
     i < length (users s) \<and> Username (users s ! i) = username \<and> Password (users s ! i) = password"
    by (auto simp: login_def split: option.splits)
qed

lemma findRoom_Some:
  "findRoom rs rid = Some i \<Longrightarrow> i < length rs \<and> Room_ID (rs ! i) = rid"
  by (induction rs arbitrary: i) (auto split: if_splits)

lemma sint_in_int64: "in_int64 (sint (a :: go_int))"
  using sint_ge [of a] sint_lt [of a] by (simp add: in_int64_def)

lemma sint_diff_nowrap:
  "in_int64 (sint a - sint b) \<Longrightarrow> sint (a - b :: go_int) = sint a - sint b"
  by (simp add: sint_word_diff in_int64_def signed_take_bit_int_eq_self)

lemma booking_sint:
  assumes "\<not> q \<le>s 0" "\<not> a <s (q :: go_int)"
  shows "sint (a - q) = sint a - sint q"
proof -
  have "0 < sint q" "sint q \<le> sint a"
    using assms by (simp_all add: word_sle_eq word_sless_alt)
  moreover have "in_int64 (sint a)" by (rule sint_in_int64)
  ultimately have "in_int64 (sint a - sint q)"
    by (simp add: in_int64_def)
  then show ?thesis by (rule sint_diff_nowrap)
qed

section \<open>Properties of the booking transaction\<close>





text \<open>
  C10. A booking whose quantity line is not an integer, or is an integer that is zero or
  negative, returns the state as it was, saves nothing and prints one rejection message:
  the invalid-quantity message when the room was found, and otherwise the message of the
  earlier check that already ended the booking.
\<close>

theorem bookRoom_bad_quantity:
  assumes "Atoi quantityStr = None
           \<or> (\<exists>quantity. Atoi quantityStr = Some quantity \<and> quantity \<le>s 0)"
  shows "fst (bookRoom fl customer idStr quantityStr s) = s
       \<and> snd (bookRoom fl customer idStr quantityStr s) =
           [Print (if rooms s = [] then NoRooms
                   else case Atoi idStr of
                     None \<Rightarrow> InvalidRoomID
                   | Some rid \<Rightarrow>
                       (case findRoom (rooms s) rid of
                          None \<Rightarrow> RoomNotFound
                        | Some i \<Rightarrow> InvalidQuantity))]"
  using assms by (auto simp: bookRoom_def split: option.splits)

theorem bookRoom_bad_quantity_witness:
  "bookRoom whole 1 ''1'' ''two'' hotel = (hotel, [Print InvalidQuantity])
   \<and> bookRoom whole 1 ''1'' ''0'' hotel = (hotel, [Print InvalidQuantity])
   \<and> bookRoom whole 1 ''1'' ''-2'' hotel = (hotel, [Print InvalidQuantity])"
proof -
  have a: "Atoi ''two'' = None" "Atoi ''0'' = Some 0" "Atoi ''-2'' = Some (-2)"
    "Atoi ''1'' = Some 1"
    by (simp_all add: Atoi_eval)
  have b: "(0::go_int) \<le>s 0" "(-2::go_int) \<le>s 0" by (simp_all add: word_sle_eq)
  have c: "rooms hotel \<noteq> []" "findRoom (rooms hotel) 1 = Some 0" by (simp_all add: hotel_def)
  show ?thesis
    using bookRoom_bad_quantity [of "''two''" whole 1 "''1''" hotel]
      bookRoom_bad_quantity [of "''0''" whole 1 "''1''" hotel]
      bookRoom_bad_quantity [of "''-2''" whole 1 "''1''" hotel] a b c
    by (simp add: prod_eq_iff)
qed

section \<open>Creating users and rooms\<close>

lemma usernameExists_iff:
  "usernameExists us username \<longleftrightarrow> (\<exists>u\<in>set us. Username u = username)"
  by (induction us) auto

text \<open>
  C6. When some existing user already has the entered username, \<open>registerCustomer\<close> and
  \<open>addUser\<close> both return the state as it was, save nothing and print that the username
  exists.
\<close>

theorem duplicate_username_rejected:
  assumes "u \<in> set (users s)" and "Username u = username"
  shows "registerCustomer fl username password choice s = (s, [Print UsernameExists])
       \<and> addUser fl username password roleChoice ctChoice s = (s, [Print UsernameExists])"
proof -
  have "usernameExists (users s) username"
    using assms by (auto simp: usernameExists_iff)
  then show ?thesis
    by (simp add: registerCustomer_def addUser_def)
qed

theorem duplicate_username_rejected_witness:
  "registerCustomer whole ''bob'' ''secret'' ''2'' hotel = (hotel, [Print UsernameExists])
   \<and> addUser whole ''bob'' ''secret'' ''2'' ''1'' hotel = (hotel, [Print UsernameExists])"
proof -
  have "users hotel ! 1 \<in> set (users hotel)" and "Username (users hotel ! 1) = ''bob''"
    by (simp_all add: hotel_def)
  then show ?thesis
    by (rule duplicate_username_rejected)
qed

text \<open>
  C9. When the price and the total both parse, \<open>addRoom\<close> appends one record to \<open>rooms\<close>
  whose available count equals its total, the entered one; the records that were there
  before are the same, in the same positions, and \<open>users\<close> is not touched.
\<close>

theorem addRoom_success:
  assumes "ParseFloat fl priceStr = Some price" and "Atoi totalStr = Some tot"
  shows "let s' = fst (addRoom fl roomType priceStr totalStr s);
             newRoom = last (rooms s')
         in rooms s' = rooms s @ [newRoom]
          \<and> Available newRoom = Total newRoom
          \<and> Total newRoom = tot \<and> Price newRoom = price \<and> Type newRoom = roomType
          \<and> Room_ID newRoom = getNextRoomID (rooms s)
          \<and> take (length (rooms s)) (rooms s') = rooms s
          \<and> users s' = users s
          \<and> snd (addRoom fl roomType priceStr totalStr s) = [SaveRooms (rooms s'), Print RoomAdded]"
  using assms by (simp add: addRoom_def Let_def)

theorem addRoom_success_witness:
  "Available (last (rooms (fst (addRoom whole ''double'' ''150'' ''3'' hotel)))) = 3
   \<and> Total (last (rooms (fst (addRoom whole ''double'' ''150'' ''3'' hotel)))) = 3
   \<and> Room_ID (last (rooms (fst (addRoom whole ''double'' ''150'' ''3'' hotel)))) = 2
   \<and> take 1 (rooms (fst (addRoom whole ''double'' ''150'' ''3'' hotel))) = rooms hotel"
proof -
  have p: "ParseFloat whole ''150'' = Some 150" by (simp add: whole_def Atoi_eval)
  have t: "Atoi ''3'' = Some 3" by (simp add: Atoi_eval)
  have n: "getNextRoomID (rooms hotel) = 2" "length (rooms hotel) = 1"
    by (simp_all add: getNextRoomID_def hotel_def word_sless_alt)
  show ?thesis
    using addRoom_success [OF p t, of "''double''" hotel] n
    by (simp add: Let_def)
qed

section \<open>Updating users and rooms\<close>

lemma findUser_Some:
  "findUser us uid = Some i \<Longrightarrow> i < length us \<and> User_ID (us ! i) = uid"
  by (induction us arbitrary: i) (auto split: if_splits)

lemma updateCustomerFields_keeps:
  "User_ID (fst (updateCustomerFields fl ctChoice balanceStr u)) = User_ID u"
  "Role (fst (updateCustomerFields fl ctChoice balanceStr u)) = Role u"
  "Username (fst (updateCustomerFields fl ctChoice balanceStr u)) = Username u"
  "Password (fst (updateCustomerFields fl ctChoice balanceStr u)) = Password u"
  "ctChoice = [] \<Longrightarrow> CustomerType (fst (updateCustomerFields fl ctChoice balanceStr u)) = CustomerType u"
  "balanceStr = [] \<Longrightarrow> Balance (fst (updateCustomerFields fl ctChoice balanceStr u)) = Balance u"
  by (simp_all add: updateCustomerFields_def Let_def split: option.splits)

lemma updatePrice_keeps:
  "Room_ID (fst (updatePrice fl priceStr r)) = Room_ID r"
  "Type (fst (updatePrice fl priceStr r)) = Type r"
  "Total (fst (updatePrice fl priceStr r)) = Total r"
  "Available (fst (updatePrice fl priceStr r)) = Available r"
  "priceStr = [] \<Longrightarrow> Price (fst (updatePrice fl priceStr r)) = Price r"
  by (simp_all add: updatePrice_def split: option.splits)

lemma updateTotal_keeps:
  "Room_ID (fst (updateTotal totalStr r)) = Room_ID r"
  "Type (fst (updateTotal totalStr r)) = Type r"
  "Price (fst (updateTotal totalStr r)) = Price r"
  "totalStr = [] \<Longrightarrow> Total (fst (updateTotal totalStr r)) = Total r"
  "totalStr = [] \<Longrightarrow> Available (fst (updateTotal totalStr r)) = Available r"
  by (simp_all add: updateTotal_def adjustTotal_def Let_def split: option.splits)

lemma updateUser_found:
  assumes "Atoi idStr = Some uid" and "findUser (users s) uid = Some i"
  shows "fst (updateUser fl idStr newUsername newPassword ctChoice balanceStr s) =
    s\<lparr>users := (users s)[i :=
      (let user = users s ! i;
           user1 = (if newUsername \<noteq> [] then user\<lparr>Username := newUsername\<rparr> else user);
           user2 = (if newPassword \<noteq> [] then user1\<lparr>Password := newPassword\<rparr> else user1)
       in if Role user2 = ''customer''
          then fst (updateCustomerFields fl ctChoice balanceStr user2) else user2)]\<rparr>"
  using assms by (simp add: updateUser_def Let_def split: prod.splits)

lemma updateRoom_found:
  assumes "Atoi idStr = Some rid" and "findRoom (rooms s) rid = Some i"
  shows "fst (updateRoom fl idStr newType priceStr totalStr s) =
    s\<lparr>rooms := (rooms s)[i :=
      fst (updateTotal totalStr (fst (updatePrice fl priceStr
        (if newType \<noteq> [] then (rooms s ! i)\<lparr>Type := newType\<rparr> else rooms s ! i))))]\<rparr>"
  using assms by (simp add: updateRoom_def Let_def split: prod.splits)

text \<open>
  C8. In an update of an existing user or room, each field whose input line is empty has
  the value it had before, the identifier (and a user's role) never changes, every other
  record of the slice is the same as before, and the other slice is not touched.
\<close>

theorem update_keeps_fields:
  "(Atoi idStr = Some uid \<and> findUser (users s) uid = Some i \<longrightarrow>
     (let s' = fst (updateUser fl idStr newUsername newPassword ctChoice balanceStr s);
          old = users s ! i; new = users s' ! i
      in (newUsername = [] \<longrightarrow> Username new = Username old)
       \<and> (newPassword = [] \<longrightarrow> Password new = Password old)
       \<and> (ctChoice = [] \<longrightarrow> CustomerType new = CustomerType old)
       \<and> (balanceStr = [] \<longrightarrow> Balance new = Balance old)
       \<and> User_ID new = User_ID old \<and> Role new = Role old
       \<and> length (users s') = length (users s)
       \<and> (\<forall>k < length (users s). k \<noteq> i \<longrightarrow> users s' ! k = users s ! k)
       \<and> rooms s' = rooms s))
   \<and> (Atoi idStr = Some rid \<and> findRoom (rooms s) rid = Some j \<longrightarrow>
     (let s' = fst (updateRoom fl idStr newType priceStr totalStr s);
          old = rooms s ! j; new = rooms s' ! j
      in (newType = [] \<longrightarrow> Type new = Type old)
       \<and> (priceStr = [] \<longrightarrow> Price new = Price old)
       \<and> (totalStr = [] \<longrightarrow> Total new = Total old \<and> Available new = Available old)
       \<and> Room_ID new = Room_ID old
       \<and> length (rooms s') = length (rooms s)
       \<and> (\<forall>k < length (rooms s). k \<noteq> j \<longrightarrow> rooms s' ! k = rooms s ! k)
       \<and> users s' = users s))"
proof (intro conjI impI)
  assume a: "Atoi idStr = Some uid \<and> findUser (users s) uid = Some i"
  then have i: "i < length (users s)" by (auto dest: findUser_Some)
  show "let s' = fst (updateUser fl idStr newUsername newPassword ctChoice balanceStr s);
          old = users s ! i; new = users s' ! i
      in (newUsername = [] \<longrightarrow> Username new = Username old)
       \<and> (newPassword = [] \<longrightarrow> Password new = Password old)
       \<and> (ctChoice = [] \<longrightarrow> CustomerType new = CustomerType old)
       \<and> (balanceStr = [] \<longrightarrow> Balance new = Balance old)
       \<and> User_ID new = User_ID old \<and> Role new = Role old
       \<and> length (users s') = length (users s)
       \<and> (\<forall>k < length (users s). k \<noteq> i \<longrightarrow> users s' ! k = users s ! k)
       \<and> rooms s' = rooms s"
    using a i by (simp add: updateUser_found Let_def updateCustomerFields_keeps)
next
  assume a: "Atoi idStr = Some rid \<and> findRoom (rooms s) rid = Some j"
  then have j: "j < length (rooms s)" by (auto dest: findRoom_Some)
  show "let s' = fst (updateRoom fl idStr newType priceStr totalStr s);
          old = rooms s ! j; new = rooms s' ! j
      in (newType = [] \<longrightarrow> Type new = Type old)
       \<and> (priceStr = [] \<longrightarrow> Price new = Price old)
       \<and> (totalStr = [] \<longrightarrow> Total new = Total old \<and> Available new = Available old)
       \<and> Room_ID new = Room_ID old
       \<and> length (rooms s') = length (rooms s)
       \<and> (\<forall>k < length (rooms s). k \<noteq> j \<longrightarrow> rooms s' ! k = rooms s ! k)
       \<and> users s' = users s"
    using a j by (simp add: updateRoom_found Let_def updatePrice_keeps updateTotal_keeps)
qed


theorem update_keeps_fields_witness:
  "Password (users (fst (updateUser whole ''2'' ''robert'' [] [] [] hotel)) ! 1) = ''pw''
   \<and> CustomerType (users (fst (updateUser whole ''2'' ''robert'' [] [] [] hotel)) ! 1) = ''member''
   \<and> Balance (users (fst (updateUser whole ''2'' ''robert'' [] [] [] hotel)) ! 1) = 1000
   \<and> users (fst (updateUser whole ''2'' ''robert'' [] [] [] hotel)) ! 0 = users hotel ! 0
   \<and> Username (users (fst (updateUser whole ''2'' [] ''secret'' ''2'' ''500'' hotel)) ! 1) = ''bob''
   \<and> Price (rooms (fst (updateRoom whole ''1'' ''suite'' [] [] hotel)) ! 0) = 100
   \<and> Total (rooms (fst (updateRoom whole ''1'' ''suite'' [] [] hotel)) ! 0) = 5
   \<and> Available (rooms (fst (updateRoom whole ''1'' ''suite'' [] [] hotel)) ! 0) = 5
   \<and> Type (rooms (fst (updateRoom whole ''1'' [] ''120'' ''8'' hotel)) ! 0) = ''single''"
proof -
  have a: "Atoi ''2'' = Some 2" "Atoi ''1'' = Some 1" by (simp_all add: Atoi_eval)
  have f: "findUser (users hotel) 2 = Some 1" "findRoom (rooms hotel) 1 = Some 0"
    by (simp_all add: hotel_def)
  have v: "Password (users hotel ! 1) = ''pw''" "CustomerType (users hotel ! 1) = ''member''"
    "Balance (users hotel ! 1) = 1000" "length (users hotel) = 2"
    "Username (users hotel ! 1) = ''bob''"
    "Price (rooms hotel ! 0) = 100" "Total (rooms hotel ! 0) = 5"
    "Available (rooms hotel ! 0) = 5" "Type (rooms hotel ! 0) = ''single''"
    by (simp_all add: hotel_def)
  show ?thesis
    using update_keeps_fields [where idStr = "''2''" and uid = 2 and s = hotel and i = 1
        and fl = whole and newUsername = "''robert''" and newPassword = "[]"
        and ctChoice = "[]" and balanceStr = "[]" and rid = 0 and j = 0]
      update_keeps_fields [where idStr = "''2''" and uid = 2 and s = hotel and i = 1
        and fl = whole and newUsername = "[]" and newPassword = "''secret''"
        and ctChoice = "''2''" and balanceStr = "''500''" and rid = 0 and j = 0]
      update_keeps_fields [where idStr = "''1''" and rid = 1 and s = hotel and j = 0
        and fl = whole and newType = "''suite''" and priceStr = "[]" and totalStr = "[]"
        and uid = 0 and i = 0]
      update_keeps_fields [where idStr = "''1''" and rid = 1 and s = hotel and j = 0
        and fl = whole and newType = "[]" and priceStr = "''120''" and totalStr = "''8''"
        and uid = 0 and i = 0]
      a f v
    by (simp add: Let_def)
qed

section \<open>Identifiers of new records are fresh\<close>

lemma sint_MaxInt64: "sint MaxInt64 = 2 ^ 63 - 1"
  by (simp add: MaxInt64_def)

lemma sint_add_nowrap:
  "in_int64 (sint a + sint b) \<Longrightarrow> sint (a + b :: go_int) = sint a + sint b"
  by (simp add: sint_word_ariths in_int64_def signed_take_bit_int_eq_self)

lemma sint_succ:
  assumes "a \<noteq> MaxInt64"
  shows "sint (a + 1 :: go_int) = sint a + 1"
proof -
  have "sint a \<noteq> sint MaxInt64" using assms signed_word_eqI by blast
  then have "sint a < 2 ^ 63 - 1"
    using sint_lt [of a] by (simp add: sint_MaxInt64)
  moreover have "- (2 ^ 63) \<le> sint a" using sint_ge [of a] by simp
  ultimately have "in_int64 (sint a + sint (1 :: go_int))" by (simp add: in_int64_def)
  then show ?thesis using sint_add_nowrap [of a 1] by simp
qed

lemma maxRoomID_lower: "m \<le>s maxRoomID m rs"
proof (induction rs arbitrary: m)
  case Nil
  show ?case by (simp add: word_sle_eq)
next
  case (Cons r rs)
  show ?case
    using Cons.IH [of "if m <s Room_ID r then Room_ID r else m"]
    by (simp add: word_sle_eq word_sless_alt split: if_splits)
qed

lemma maxRoomID_upper: "r \<in> set rs \<Longrightarrow> Room_ID r \<le>s maxRoomID m rs"
proof (induction rs arbitrary: m)
  case Nil
  then show ?case by simp
next
  case (Cons a rs)
  show ?case
  proof (cases "r = a")
    case True
    then show ?thesis
      using maxRoomID_lower [of "if m <s Room_ID a then Room_ID a else m" rs]
      by (simp add: word_sle_eq word_sless_alt split: if_splits)
  next
    case False
    then show ?thesis using Cons by simp
  qed
qed

lemma maxRoomID_attained: "maxRoomID m rs = m \<or> maxRoomID m rs \<in> Room_ID ` set rs"
proof (induction rs arbitrary: m)
  case Nil
  show ?case by simp
next
  case (Cons a rs)
  show ?case
    using Cons [of "if m <s Room_ID a then Room_ID a else m"]
    by (auto split: if_splits)
qed

lemma maxRoomID_Max:
  "sint (maxRoomID m rs) = Max (insert (sint m) (sint ` Room_ID ` set rs))"
proof (rule sym, rule Max_eqI)
  show "finite (insert (sint m) (sint ` Room_ID ` set rs))" by simp
  show "y \<le> sint (maxRoomID m rs)" if "y \<in> insert (sint m) (sint ` Room_ID ` set rs)" for y
    using that maxRoomID_lower [of m rs] maxRoomID_upper [of _ rs m]
    by (auto simp: word_sle_eq)
  show "sint (maxRoomID m rs) \<in> insert (sint m) (sint ` Room_ID ` set rs)"
    using maxRoomID_attained [of m rs] by auto
qed

lemma getNextRoomID_above:
  assumes "\<forall>r\<in>set rs. Room_ID r \<noteq> MaxInt64"
  shows "sint (getNextRoomID rs) = Max (insert 0 (sint ` Room_ID ` set rs)) + 1"
    and "\<forall>r\<in>set rs. Room_ID r <s getNextRoomID rs"
proof -
  have "maxRoomID 0 rs \<noteq> MaxInt64"
    using maxRoomID_attained [of 0 rs] assms by (auto simp: MaxInt64_def)
  then have s: "sint (getNextRoomID rs) = sint (maxRoomID 0 rs) + 1"
    by (simp add: getNextRoomID_def sint_succ)
  then show "sint (getNextRoomID rs) = Max (insert 0 (sint ` Room_ID ` set rs)) + 1"
    using maxRoomID_Max [of 0 rs] by simp
  show "\<forall>r\<in>set rs. Room_ID r <s getNextRoomID rs"
    using s maxRoomID_upper [of _ rs 0] by (auto simp: word_sle_eq word_sless_alt)
qed

lemma maxUserID_lower: "m \<le>s maxUserID m us"
proof (induction us arbitrary: m)
  case Nil
  show ?case by (simp add: word_sle_eq)
next
  case (Cons u us)
  show ?case
    using Cons.IH [of "if m <s User_ID u then User_ID u else m"]
    by (simp add: word_sle_eq word_sless_alt split: if_splits)
qed

lemma maxUserID_upper: "u \<in> set us \<Longrightarrow> User_ID u \<le>s maxUserID m us"
proof (induction us arbitrary: m)
  case Nil
  then show ?case by simp
next
  case (Cons a us)
  show ?case
  proof (cases "u = a")
    case True
    then show ?thesis
      using maxUserID_lower [of "if m <s User_ID a then User_ID a else m" us]
      by (simp add: word_sle_eq word_sless_alt split: if_splits)
  next
    case False
    then show ?thesis using Cons by simp
  qed
qed

lemma maxUserID_attained: "maxUserID m us = m \<or> maxUserID m us \<in> User_ID ` set us"
proof (induction us arbitrary: m)
  case Nil
  show ?case by simp
next
  case (Cons a us)
  show ?case
    using Cons [of "if m <s User_ID a then User_ID a else m"]
    by (auto split: if_splits)
qed

lemma maxUserID_Max:
  "sint (maxUserID m us) = Max (insert (sint m) (sint ` User_ID ` set us))"
proof (rule sym, rule Max_eqI)
  show "finite (insert (sint m) (sint ` User_ID ` set us))" by simp
  show "y \<le> sint (maxUserID m us)" if "y \<in> insert (sint m) (sint ` User_ID ` set us)" for y
    using that maxUserID_lower [of m us] maxUserID_upper [of _ us m]
    by (auto simp: word_sle_eq)
  show "sint (maxUserID m us) \<in> insert (sint m) (sint ` User_ID ` set us)"
    using maxUserID_attained [of m us] by auto
qed

lemma getNextUserID_above:
  assumes "\<forall>u\<in>set us. User_ID u \<noteq> MaxInt64"
  shows "sint (getNextUserID us) = Max (insert 0 (sint ` User_ID ` set us)) + 1"
    and "\<forall>u\<in>set us. User_ID u <s getNextUserID us"
proof -
  have "maxUserID 0 us \<noteq> MaxInt64"
    using maxUserID_attained [of 0 us] assms by (auto simp: MaxInt64_def)
  then have s: "sint (getNextUserID us) = sint (maxUserID 0 us) + 1"
    by (simp add: getNextUserID_def sint_succ)
  then show "sint (getNextUserID us) = Max (insert 0 (sint ` User_ID ` set us)) + 1"
    using maxUserID_Max [of 0 us] by simp
  show "\<forall>u\<in>set us. User_ID u <s getNextUserID us"
    using s maxUserID_upper [of _ us 0] by (auto simp: word_sle_eq word_sless_alt)
qed


text \<open>
  C7, with its side condition. The record that \<open>addRoom\<close>, \<open>registerCustomer\<close> or \<open>addUser\<close> appends
  gets the identifier \<open>getNextRoomID\<close> or \<open>getNextUserID\<close> computes from the slice. When no
  existing identifier is the largest 64-bit integer, that identifier is one more than the
  largest of 0 and the existing identifiers, it is above every existing identifier and so
  differs from each.
\<close>

theorem next_id_above_existing:
  "((\<forall>r\<in>set rs. Room_ID r \<noteq> MaxInt64) \<longrightarrow>
      sint (getNextRoomID rs) = Max (insert 0 (sint ` Room_ID ` set rs)) + 1
      \<and> (\<forall>r\<in>set rs. Room_ID r <s getNextRoomID rs \<and> Room_ID r \<noteq> getNextRoomID rs))
   \<and> ((\<forall>u\<in>set us. User_ID u \<noteq> MaxInt64) \<longrightarrow>
      sint (getNextUserID us) = Max (insert 0 (sint ` User_ID ` set us)) + 1
      \<and> (\<forall>u\<in>set us. User_ID u <s getNextUserID us \<and> User_ID u \<noteq> getNextUserID us))
   \<and> (ParseFloat fl priceStr = Some price \<and> Atoi totalStr = Some tot \<longrightarrow>
      Room_ID (last (rooms (fst (addRoom fl roomType priceStr totalStr s)))) =
        getNextRoomID (rooms s))
   \<and> (\<not> usernameExists (users s) username \<longrightarrow>
      User_ID (last (users (fst (registerCustomer fl username password choice s)))) =
        getNextUserID (users s))
   \<and> (\<not> usernameExists (users s) username \<and> (roleChoice = ''1'' \<or> roleChoice = ''2'') \<longrightarrow>
      User_ID (last (users (fst (addUser fl username password roleChoice ctChoice s)))) =
        getNextUserID (users s))"
proof (intro conjI impI)
  assume a: "\<forall>r\<in>set rs. Room_ID r \<noteq> MaxInt64"
  show "sint (getNextRoomID rs) = Max (insert 0 (sint ` Room_ID ` set rs)) + 1"
    using a by (rule getNextRoomID_above(1))
  show "\<forall>r\<in>set rs. Room_ID r <s getNextRoomID rs \<and> Room_ID r \<noteq> getNextRoomID rs"
    using getNextRoomID_above(2) [OF a] by (auto simp: word_sless_alt)
next
  assume a: "\<forall>u\<in>set us. User_ID u \<noteq> MaxInt64"
  show "sint (getNextUserID us) = Max (insert 0 (sint ` User_ID ` set us)) + 1"
    using a by (rule getNextUserID_above(1))
  show "\<forall>u\<in>set us. User_ID u <s getNextUserID us \<and> User_ID u \<noteq> getNextUserID us"
    using getNextUserID_above(2) [OF a] by (auto simp: word_sless_alt)
next
  assume "ParseFloat fl priceStr = Some price \<and> Atoi totalStr = Some tot"
  then show "Room_ID (last (rooms (fst (addRoom fl roomType priceStr totalStr s)))) =
        getNextRoomID (rooms s)"
    by (simp add: addRoom_def Let_def)
next
  assume "\<not> usernameExists (users s) username"
  then show "User_ID (last (users (fst (registerCustomer fl username password choice s)))) =
        getNextUserID (users s)"
    by (simp add: registerCustomer_def Let_def)
next
  assume "\<not> usernameExists (users s) username \<and> (roleChoice = ''1'' \<or> roleChoice = ''2'')"
  then show "User_ID (last (users (fst (addUser fl username password roleChoice ctChoice s)))) =
        getNextUserID (users s)"
    by (auto simp: addUser_def Let_def)
qed

theorem next_id_above_existing_witness:
  "sint (getNextRoomID (rooms hotel)) = 2
   \<and> sint (getNextUserID (users hotel)) = 3
   \<and> Room_ID (last (rooms (fst (addRoom whole ''double'' ''150'' ''3'' hotel)))) = 2
   \<and> User_ID (last (users (fst (registerCustomer whole ''carol'' ''pw'' ''2'' hotel)))) = 3
   \<and> User_ID (last (users (fst (addUser whole ''carol'' ''pw'' ''2'' ''1'' hotel)))) = 3"
proof -
  have r: "\<forall>r\<in>set (rooms hotel). Room_ID r \<noteq> MaxInt64"
    and u: "\<forall>u\<in>set (users hotel). User_ID u \<noteq> MaxInt64"
    by (simp_all add: hotel_def MaxInt64_def)
  have m: "Max (insert 0 (sint ` Room_ID ` set (rooms hotel))) = 1"
    "Max (insert 0 (sint ` User_ID ` set (users hotel))) = 2"
    by (simp_all add: hotel_def)
  have p: "ParseFloat whole ''150'' = Some 150" "Atoi ''3'' = Some 3"
    by (simp_all add: whole_def Atoi_eval)
  have n: "\<not> usernameExists (users hotel) ''carol''" by (simp add: hotel_def)
  note inst = next_id_above_existing [of "rooms hotel" "users hotel" whole "''150''" 150
      "''3''" 3 "''double''" hotel "''carol''" "''pw''" "''2''" "''2''" "''1''"]
  have "sint (getNextRoomID (rooms hotel)) = 2" "sint (getNextUserID (users hotel)) = 3"
    using inst r u m by simp_all
  then have g: "getNextRoomID (rooms hotel) = 2" "getNextUserID (users hotel) = 3"
    by (auto intro: signed_word_eqI)
  show ?thesis
    using inst r u m p n g by simp
qed

theorem next_id_counterexample:
  "getNextRoomID
     [\<lparr>Room_ID = - 5, Type = ''single'', Price = 100 :: int, Total = 1, Available = 1\<rparr>]
     \<noteq> - 5 + 1
   \<and> getNextUserID
       [\<lparr>User_ID = 9223372036854775807, Username = ''a'', Password = ''a'', Role = ''admin'',
         CustomerType = [], Balance = 0 :: int\<rparr>,
        \<lparr>User_ID = - 9223372036854775808, Username = ''b'', Password = ''b'',
         Role = ''admin'', CustomerType = [], Balance = 0\<rparr>]
     = - 9223372036854775808"
  by (simp add: getNextRoomID_def getNextUserID_def word_sless_alt)

section \<open>The constraints on room records\<close>

lemma adjustTotal_ok:
  assumes "room_ok nonneg r" and "0 \<le>s tot"
  shows "room_ok nonneg (adjustTotal tot r)"
proof -
  from assms have b: "0 \<le> sint (Total r)" "0 \<le> sint (Available r)"
    "sint (Available r) \<le> sint (Total r)" "0 \<le> sint tot" and p: "nonneg (Price r)"
    by (simp_all add: room_ok_def word_sle_eq)
  have r: "sint (Total r) < 2 ^ 63" "sint tot < 2 ^ 63"
    using sint_lt [of "Total r"] sint_lt [of tot] by simp_all
  have "in_int64 (sint tot - sint (Total r))"
    using b r by (simp add: in_int64_def)
  then have d: "sint (tot - Total r) = sint tot - sint (Total r)"
    by (rule sint_diff_nowrap)
  have "in_int64 (sint (Available r) + sint (tot - Total r))"
    using b r by (simp add: in_int64_def d)
  then have a: "sint (Available r + (tot - Total r)) =
      sint (Available r) + (sint tot - sint (Total r))"
    using d by (simp add: sint_add_nowrap)
  show ?thesis
    using a b p by (simp add: adjustTotal_def room_ok_def Let_def word_sle_eq word_sless_alt)
qed

lemma updateTotal_ok:
  assumes "room_ok nonneg r" and "\<forall>tot. Atoi totalStr = Some tot \<longrightarrow> 0 \<le>s tot"
  shows "room_ok nonneg (fst (updateTotal totalStr r))"
  using assms by (simp add: updateTotal_def adjustTotal_ok split: option.splits)

lemma updatePrice_ok:
  assumes "room_ok nonneg r" and "\<forall>price. ParseFloat fl priceStr = Some price \<longrightarrow> nonneg price"
  shows "room_ok nonneg (fst (updatePrice fl priceStr r))"
  using assms by (simp add: updatePrice_def room_ok_def split: option.splits)

lemma room_ok_Type: "room_ok nonneg (r\<lparr>Type := t\<rparr>) = room_ok nonneg r"
  by (simp add: room_ok_def)

lemma booked_ok:
  assumes "room_ok nonneg r" and "\<not> q \<le>s 0" and "\<not> Available r <s q"
  shows "room_ok nonneg (r\<lparr>Available := Available r - q\<rparr>)"
  using assms booking_sint [OF assms(2,3)]
  by (simp add: room_ok_def word_sle_eq word_sless_alt)

lemma addRoom_ok:
  assumes "\<forall>r\<in>set (rooms s). room_ok nonneg r"
    and "\<forall>price. ParseFloat fl priceStr = Some price \<longrightarrow> nonneg price"
    and "\<forall>tot. Atoi totalStr = Some tot \<longrightarrow> 0 \<le>s tot"
  shows "\<forall>r\<in>set (rooms (fst (addRoom fl roomType priceStr totalStr s))). room_ok nonneg r"
  using assms
  by (auto simp: addRoom_def Let_def room_ok_def word_sle_eq split: option.splits)

lemma updateRoom_ok:
  assumes "\<forall>r\<in>set (rooms s). room_ok nonneg r"
    and "\<forall>price. ParseFloat fl priceStr = Some price \<longrightarrow> nonneg price"
    and "\<forall>tot. Atoi totalStr = Some tot \<longrightarrow> 0 \<le>s tot"
  shows "\<forall>r\<in>set (rooms (fst (updateRoom fl idStr newType priceStr totalStr s))). room_ok nonneg r"
proof (cases "\<exists>rid i. Atoi idStr = Some rid \<and> findRoom (rooms s) rid = Some i")
  case True
  then obtain rid i where f: "Atoi idStr = Some rid" "findRoom (rooms s) rid = Some i"
    by blast
  then have i: "i < length (rooms s)" by (auto dest: findRoom_Some)
  then have "room_ok nonneg (rooms s ! i)" using assms(1) by simp
  then have "room_ok nonneg (if newType \<noteq> [] then (rooms s ! i)\<lparr>Type := newType\<rparr> else rooms s ! i)"
    by (simp add: room_ok_Type)
  then have "room_ok nonneg (fst (updateTotal totalStr (fst (updatePrice fl priceStr
        (if newType \<noteq> [] then (rooms s ! i)\<lparr>Type := newType\<rparr> else rooms s ! i)))))"
    using assms(2,3) by (intro updateTotal_ok updatePrice_ok)
  then show ?thesis
    using assms(1) i by (auto simp: updateRoom_found [OF f] dest!: set_update_subset_insert [THEN subsetD])
next
  case False
  then have "fst (updateRoom fl idStr newType priceStr totalStr s) = s"
    by (auto simp: updateRoom_def split: option.splits)
  then show ?thesis using assms(1) by simp
qed

lemma bookRoom_ok:
  assumes "\<forall>r\<in>set (rooms s). room_ok nonneg r"
  shows "\<forall>r\<in>set (rooms (fst (bookRoom fl customer idStr quantityStr s))). room_ok nonneg r"
proof -
  have "room_ok nonneg ((rooms s ! i)\<lparr>Available := Available (rooms s ! i) - q\<rparr>)"
    if "findRoom (rooms s) rid = Some i" "\<not> q \<le>s 0" "\<not> Available (rooms s ! i) <s q"
    for rid i q
  proof -
    from that(1) have "i < length (rooms s)" by (auto dest: findRoom_Some)
    then have "room_ok nonneg (rooms s ! i)" using assms by simp
    then show ?thesis using that(2,3) by (rule booked_ok)
  qed
  then show ?thesis
    using assms
    by (auto simp: bookRoom_def Let_def split: option.splits
        dest!: set_update_subset_insert [THEN subsetD])
qed

text \<open>
  C3, for non-negative inputs. If every room record satisfies the constraints (price non-negative,
  total non-negative, available between 0 and total), then so does every record after
  \<open>bookRoom\<close>, and after \<open>addRoom\<close> and \<open>updateRoom\<close> when the price they read, if it
  parses, is non-negative and the total they read, if it parses, is non-negative.
\<close>

theorem room_constraints_preserved:
  assumes "\<forall>r\<in>set (rooms s). room_ok nonneg r"
  shows "((\<forall>price. ParseFloat fl priceStr = Some price \<longrightarrow> nonneg price)
          \<and> (\<forall>tot. Atoi totalStr = Some tot \<longrightarrow> 0 \<le>s tot) \<longrightarrow>
            (\<forall>r\<in>set (rooms (fst (addRoom fl roomType priceStr totalStr s))). room_ok nonneg r)
          \<and> (\<forall>r\<in>set (rooms (fst (updateRoom fl idStr newType priceStr totalStr s))).
                room_ok nonneg r))
       \<and> (\<forall>r\<in>set (rooms (fst (bookRoom fl customer idStr quantityStr s))). room_ok nonneg r)"
  using addRoom_ok [OF assms] updateRoom_ok [OF assms] bookRoom_ok [OF assms]
  by blast

theorem room_constraints_preserved_witness:
  "list_all (room_ok (\<lambda>p. 0 \<le> p)) (rooms (fst (addRoom whole ''double'' ''150'' ''3'' hotel)))
   \<and> list_all (room_ok (\<lambda>p. 0 \<le> p)) (rooms (fst (updateRoom whole ''1'' [] ''150'' ''3'' hotel)))
   \<and> list_all (room_ok (\<lambda>p. 0 \<le> p)) (rooms (fst (bookRoom whole 1 ''1'' ''2'' hotel)))"
proof -
  have h: "\<forall>r\<in>set (rooms hotel). room_ok (\<lambda>p. 0 \<le> p) r"
    by (simp add: hotel_def room_ok_def word_sle_eq)
  have p: "\<forall>price. ParseFloat whole ''150'' = Some price \<longrightarrow> 0 \<le> price"
    by (simp add: whole_def Atoi_eval)
  have t: "\<forall>tot. Atoi ''3'' = Some tot \<longrightarrow> 0 \<le>s tot"
    by (simp add: Atoi_eval word_sle_eq)
  show ?thesis
    using room_constraints_preserved [OF h, of whole "''150''" "''3''" "''double''" "''1''" "[]"
        1 "''2''"] p t
    by (simp add: list_all_iff)
qed

theorem room_constraints_counterexample:
  "list_all (room_ok (\<lambda>p. 0 \<le> p)) (rooms hotel)
   \<and> \<not> 0 \<le>s Total (last (rooms (fst (addRoom whole ''single'' ''100'' ''-1'' hotel))))
   \<and> \<not> 0 \<le>s Available (last (rooms (fst (addRoom whole ''single'' ''100'' ''-1'' hotel))))
   \<and> \<not> 0 \<le> Price (last (rooms (fst (addRoom whole ''single'' ''-1'' ''1'' hotel))))
   \<and> \<not> 0 \<le>s Total (rooms (fst (updateRoom whole ''1'' [] [] ''-3'' hotel)) ! 0)
   \<and> \<not> Available (rooms (fst (updateRoom whole ''1'' [] [] ''-3'' hotel)) ! 0)
          \<le>s Total (rooms (fst (updateRoom whole ''1'' [] [] ''-3'' hotel)) ! 0)"
  by (simp add: hotel_def whole_def room_ok_def addRoom_def updateRoom_def updatePrice_def
      updateTotal_def adjustTotal_def Let_def Atoi_eval word_sle_eq word_sless_alt)

section \<open>Invalid input\<close>














section \<open>How the available count changes\<close>















end
